theory Spec2Isabelle
  imports Main "HOL-Library.Word" "HOL-Library.AList" "HOL-Library.Sublist"
begin

unbundle bit_operations_syntax

section \<open>Data model\<close>

text \<open>
  \<^verbatim>\<open>Column.h\<close>: the enumeration \<^verbatim>\<open>DataType\<close> and the class \<^verbatim>\<open>Column\<close> with its four
  private members \<^verbatim>\<open>name\<close>, \<^verbatim>\<open>type\<close>, \<^verbatim>\<open>allowNull\<close> and \<^verbatim>\<open>defaultValue\<close>. The constructor
  \<^verbatim>\<open>Column(name, type, allowNull = true, defaultValue = "")\<close> stores its arguments.
\<close>

datatype DataType = INTEGER | FLOAT | STRING

record Column =
  colName :: string
  colType :: DataType
  allowNull :: bool
  defaultValue :: string

text \<open>
  \<^verbatim>\<open>Constraint.h\<close>: three subclasses told apart by \<^verbatim>\<open>dynamic_cast\<close>; here a datatype.
\<close>

datatype Constraint =
    PrimaryKeyConstraint "string list"
  | UniqueConstraint "string list"
  | ForeignKeyConstraint "string list" string "string list"

record Schema =
  columns :: "Column list"
  constraints :: "Constraint list"

text \<open>
  \<^verbatim>\<open>Record\<close> wraps an \<^verbatim>\<open>unordered_map<string, string>\<close>: keys are unique and the
  iteration order is not observable in any operation modelled here, so a record is a
  finite map from column names to values.
\<close>

type_synonym Record = "string \<rightharpoonup> string"

definition setValue :: "Record \<Rightarrow> string \<Rightarrow> string \<Rightarrow> Record" where
  "setValue r columnName v = r(columnName \<mapsto> v)"

definition hasColumn :: "Record \<Rightarrow> string \<Rightarrow> bool" where
  "hasColumn r columnName = (r columnName \<noteq> None)"

text \<open>\<^verbatim>\<open>Record::getValue\<close> throws \<^verbatim>\<open>std::runtime_error\<close> on a missing column: \<open>None\<close>.\<close>

definition getValue :: "Record \<Rightarrow> string \<Rightarrow> string option" where
  "getValue r columnName = r columnName"

record Table =
  tableName :: string
  schema :: Schema
  records :: "Record list"

text \<open>
  \<^verbatim>\<open>Database::tables\<close> is an \<^verbatim>\<open>unordered_map<string, shared_ptr<Table>>\<close>: an association
  list with distinct keys, read through \<open>map_of\<close>. The position of an entry in the list
  carries no meaning. The order in which the \<^verbatim>\<open>unordered_map\<close> is iterated is not
  specified, so \<^verbatim>\<open>flushToFile\<close> takes it as a parameter; the loop of \<^verbatim>\<open>dropTable\<close> treats
  every table alike and does not depend on it. Every table object is registered under
  one name only, so tables are held by value.
\<close>

type_synonym Database = "(string \<times> Table) list"

section \<open>String primitives of the standard library\<close>

text \<open>
  \<^verbatim>\<open>std::string::npos\<close> is \<open>None\<close>. Every \<^verbatim>\<open>substr\<close> call in the sources has its start
  position within the string, so the \<^verbatim>\<open>out_of_range\<close> exception cannot arise;
  \<^verbatim>\<open>size_t\<close> subtraction wraps modulo \<open>2^64\<close>.
\<close>

definition size_sub :: "nat \<Rightarrow> nat \<Rightarrow> nat" where
  "size_sub a b = (if b \<le> a then a - b else 2 ^ 64 - (b - a))"

definition substr :: "string \<Rightarrow> nat \<Rightarrow> nat \<Rightarrow> string" where
  "substr s pos n = take n (drop pos s)"

definition substr_from :: "string \<Rightarrow> nat \<Rightarrow> string" where
  "substr_from s pos = drop pos s"

fun find_char :: "string \<Rightarrow> char \<Rightarrow> nat option" where
  "find_char [] c = None"
| "find_char (x # s) c = (if x = c then Some 0 else map_option Suc (find_char s c))"

fun find_str :: "string \<Rightarrow> string \<Rightarrow> nat option" where
  "find_str [] pat = (if pat = [] then Some 0 else None)"
| "find_str (x # s) pat = (if prefix pat (x # s) then Some 0 else map_option Suc (find_str s pat))"

fun find_first_not_of :: "string \<Rightarrow> string \<Rightarrow> nat option" where
  "find_first_not_of [] cs = None"
| "find_first_not_of (x # s) cs =
     (if x \<in> set cs then map_option Suc (find_first_not_of s cs) else Some 0)"

definition find_last_not_of :: "string \<Rightarrow> string \<Rightarrow> nat option" where
  "find_last_not_of s cs = map_option (\<lambda>i. length s - 1 - i) (find_first_not_of (rev s) cs)"

text \<open>\<^verbatim>\<open>s.rfind(p, 0) == 0\<close> holds exactly when \<open>p\<close> is a prefix of \<open>s\<close>.\<close>

definition starts_with :: "string \<Rightarrow> string \<Rightarrow> bool" where
  "starts_with s p = prefix p s"

text \<open>
  \<^verbatim>\<open>std::getline(stream, token, delim)\<close> on the unread rest of a string stream: it fails
  when nothing is left, otherwise it yields the characters before the first delimiter
  and consumes that delimiter.
\<close>

definition getline :: "string \<Rightarrow> char \<Rightarrow> (string \<times> string) option" where
  "getline s d =
     (if s = [] then None else Some (takeWhile (\<lambda>c. c \<noteq> d) s, drop 1 (dropWhile (\<lambda>c. c \<noteq> d) s)))"

text \<open>The tokens that repeated \<^verbatim>\<open>getline\<close> calls deliver until the stream fails.\<close>

function getline_all :: "string \<Rightarrow> char \<Rightarrow> string list" where
  "getline_all s d =
     (case getline s d of None \<Rightarrow> [] | Some (tok, rest) \<Rightarrow> tok # getline_all rest d)"
  by pat_completeness auto
termination
  apply (relation "measure (\<lambda>(s, d). length s)")
   apply simp
  subgoal for s d x tok rest
    using length_dropWhile_le [of "\<lambda>c. c \<noteq> d" s]
    by (cases s) (auto simp: getline_def split: if_splits)
  done

section \<open>Utility\<close>

definition whitespace :: string where
  "whitespace = [CHR '' '', CHR 0x09, CHR 0x0A, CHR 0x0D]"

definition trim :: "string \<Rightarrow> string" where
  "trim s =
     (case find_first_not_of s whitespace of
        None \<Rightarrow> []
      | Some start \<Rightarrow>
          (case find_last_not_of s whitespace of
             None \<Rightarrow> []
           | Some end \<Rightarrow> substr s start (end - start + 1)))"

definition split :: "string \<Rightarrow> char \<Rightarrow> string list" where
  "split s delimiter = map trim (getline_all s delimiter)"

definition removeApostrophe :: "string \<Rightarrow> string" where
  "removeApostrophe s =
     (if s \<noteq> [] \<and> hd s = CHR 0x27 \<and> last s = CHR 0x27
      then substr s 1 (size_sub (length s) 2) else s)"

section \<open>Table\<close>

datatype insert_error =
    MissingPrimaryKeyColumn string
  | EmptyPrimaryKeyValue string
  | DuplicatePrimaryKey "string list"
  | MissingUniqueColumn string
  | DuplicateUnique "string list"

text \<open>The loop gathering the new record's primary-key values; each early \<^verbatim>\<open>return false\<close> is an error.\<close>

fun gatherPrimaryKey :: "Record \<Rightarrow> string list \<Rightarrow> insert_error + string list" where
  "gatherPrimaryKey record [] = Inr []"
| "gatherPrimaryKey record (col # cols) =
     (if \<not> hasColumn record col then Inl (MissingPrimaryKeyColumn col)
      else case getValue record col of
        None \<Rightarrow> Inl (MissingPrimaryKeyColumn col)
      | Some v \<Rightarrow>
          if v = [] then Inl (EmptyPrimaryKeyValue col)
          else (case gatherPrimaryKey record cols of
                  Inl e \<Rightarrow> Inl e
                | Inr vs \<Rightarrow> Inr (v # vs)))"

fun gatherUnique :: "Record \<Rightarrow> string list \<Rightarrow> insert_error + string list" where
  "gatherUnique record [] = Inr []"
| "gatherUnique record (col # cols) =
     (if \<not> hasColumn record col then Inl (MissingUniqueColumn col)
      else case getValue record col of
        None \<Rightarrow> Inl (MissingUniqueColumn col)
      | Some v \<Rightarrow>
          (case gatherUnique record cols of
             Inl e \<Rightarrow> Inl e
           | Inr vs \<Rightarrow> Inr (v # vs)))"

text \<open>The inner loop over an existing record: \<open>None\<close> when \<^verbatim>\<open>missing\<close> is set.\<close>

fun existingValues :: "Record \<Rightarrow> string list \<Rightarrow> string list option" where
  "existingValues existingRecord [] = Some []"
| "existingValues existingRecord (col # cols) =
     (if \<not> hasColumn existingRecord col then None
      else case getValue existingRecord col of
        None \<Rightarrow> None
      | Some v \<Rightarrow> map_option ((#) v) (existingValues existingRecord cols))"

text \<open>The scan of the existing records: \<open>True\<close> when a duplicate is found.\<close>

fun duplicateScan :: "Record list \<Rightarrow> string list \<Rightarrow> string list \<Rightarrow> bool" where
  "duplicateScan [] keyColumns newValues = False"
| "duplicateScan (existingRecord # rest) keyColumns newValues =
     (case existingValues existingRecord keyColumns of
        None \<Rightarrow> duplicateScan rest keyColumns newValues
      | Some vs \<Rightarrow> if vs = newValues then True else duplicateScan rest keyColumns newValues)"

fun checkConstraints :: "Constraint list \<Rightarrow> Record list \<Rightarrow> Record \<Rightarrow> insert_error option" where
  "checkConstraints [] rs record = None"
| "checkConstraints (PrimaryKeyConstraint keyColumns # cs) rs record =
     (case gatherPrimaryKey record keyColumns of
        Inl e \<Rightarrow> Some e
      | Inr newValues \<Rightarrow>
          if duplicateScan rs keyColumns newValues then Some (DuplicatePrimaryKey keyColumns)
          else checkConstraints cs rs record)"
| "checkConstraints (UniqueConstraint keyColumns # cs) rs record =
     (case gatherUnique record keyColumns of
        Inl e \<Rightarrow> Some e
      | Inr newValues \<Rightarrow>
          if duplicateScan rs keyColumns newValues then Some (DuplicateUnique keyColumns)
          else checkConstraints cs rs record)"
| "checkConstraints (ForeignKeyConstraint keyColumns refTable refColumns # cs) rs record =
     checkConstraints cs rs record"

text \<open>\<^verbatim>\<open>Table::insertRecord\<close>: the returned flag and the table afterwards.\<close>

definition insertRecord :: "Table \<Rightarrow> Record \<Rightarrow> bool \<times> Table" where
  "insertRecord t record =
     (case checkConstraints (constraints (schema t)) (records t) record of
        Some e \<Rightarrow> (False, t)
      | None \<Rightarrow> (True, t\<lparr>records := records t @ [record]\<rparr>))"

text \<open>
  Applying every pair of \<^verbatim>\<open>newRecord.getData()\<close> with \<^verbatim>\<open>setValue\<close>: the keys of an
  \<^verbatim>\<open>unordered_map\<close> are distinct, so the result is the record overridden by \<open>newRecord\<close>.
\<close>

definition applyPairs :: "Record \<Rightarrow> Record \<Rightarrow> Record" where
  "applyPairs record newRecord = record ++ newRecord"

text \<open>The loop of \<^verbatim>\<open>updateRecord\<close> over the records, threading the flag \<^verbatim>\<open>updated\<close>.\<close>

fun updateLoop :: "Record list \<Rightarrow> Record \<Rightarrow> string \<Rightarrow> string \<Rightarrow> bool \<Rightarrow> bool \<times> Record list" where
  "updateLoop [] newRecord condCol condVal updated = (updated, [])"
| "updateLoop (record # rest) newRecord condCol condVal updated =
     (case getValue record condCol of
        None \<Rightarrow>
          (let (u, rs) = updateLoop rest newRecord condCol condVal updated in (u, record # rs))
      | Some v \<Rightarrow>
          if v = condVal
          then (let (u, rs) = updateLoop rest newRecord condCol condVal True
                in (u, applyPairs record newRecord # rs))
          else (let (u, rs) = updateLoop rest newRecord condCol condVal updated
                in (u, record # rs)))"

definition updateRecord :: "Table \<Rightarrow> Record \<Rightarrow> string \<Rightarrow> bool \<times> Table" where
  "updateRecord t newRecord condition =
     (let cond = trim condition in
      if cond = [] \<or> cond = ''all''
      then (True, t\<lparr>records := map (\<lambda>record. applyPairs record newRecord) (records t)\<rparr>)
      else case find_char cond CHR ''='' of
        None \<Rightarrow> (False, t)
      | Some pos \<Rightarrow>
          (let condCol = trim (substr cond 0 pos);
               condVal = trim (substr_from cond (pos + 1));
               (updated, rs) = updateLoop (records t) newRecord condCol condVal False
           in (updated, t\<lparr>records := rs\<rparr>)))"

text \<open>
  \<^verbatim>\<open>records.erase(std::remove_if(...), records.end())\<close>: the elements for which the
  predicate is false, in their order.
\<close>

fun remove_if :: "('a \<Rightarrow> bool) \<Rightarrow> 'a list \<Rightarrow> 'a list" where
  "remove_if p [] = []"
| "remove_if p (x # xs) = (if p x then remove_if p xs else x # remove_if p xs)"

text \<open>The predicate of \<^verbatim>\<open>deleteRecord\<close>; the caught \<^verbatim>\<open>runtime_error\<close> gives \<open>False\<close>.\<close>

definition deleteMatches :: "string \<Rightarrow> string \<Rightarrow> Record \<Rightarrow> bool" where
  "deleteMatches condCol condVal record =
     (case getValue record condCol of None \<Rightarrow> False | Some v \<Rightarrow> v = condVal)"

definition deleteRecord :: "Table \<Rightarrow> string \<Rightarrow> bool \<times> Table" where
  "deleteRecord t condition =
     (let cond = trim condition in
      if cond = ''all'' then (True, t\<lparr>records := []\<rparr>)
      else case find_char cond CHR ''='' of
        None \<Rightarrow> (False, t)
      | Some pos \<Rightarrow>
          (let condCol = trim (substr cond 0 pos);
               condVal0 = trim (substr_from cond (pos + 1));
               condVal = (if condVal0 \<noteq> [] \<and> hd condVal0 = CHR 0x27 \<and> last condVal0 = CHR 0x27
                          then substr condVal0 1 (size_sub (length condVal0) 2) else condVal0);
               beforeSize = length (records t);
               rs = remove_if (deleteMatches condCol condVal) (records t);
               afterSize = length rs
           in (beforeSize > afterSize, t\<lparr>records := rs\<rparr>)))"

section \<open>Database: table management and row operations\<close>

text \<open>
  \<^verbatim>\<open>tables[tableName] = table\<close>: the entry of an existing key is replaced, a new key gets
  an entry. Where the new entry sits in the list is immaterial: the catalog is read
  through \<open>getTable\<close> and iterated in an order given from outside.
\<close>

definition addTable :: "Database \<Rightarrow> string \<Rightarrow> Table \<Rightarrow> Database" where
  "addTable db name t = AList.update name t db"

definition getTable :: "Database \<Rightarrow> string \<Rightarrow> Table option" where
  "getTable db name = map_of db name"

definition referencesTable :: "string \<Rightarrow> Constraint \<Rightarrow> bool" where
  "referencesTable name c =
     (case c of ForeignKeyConstraint cols refTable refCols \<Rightarrow> refTable = name | _ \<Rightarrow> False)"

definition stripForeignKeys :: "string \<Rightarrow> Table \<Rightarrow> Table" where
  "stripForeignKeys name t =
     t\<lparr>schema := (schema t)\<lparr>constraints := remove_if (referencesTable name) (constraints (schema t))\<rparr>\<rparr>"

definition dropTable :: "Database \<Rightarrow> string \<Rightarrow> bool \<times> Database" where
  "dropTable db name =
     (case getTable db name of
        None \<Rightarrow> (False, db)
      | Some t \<Rightarrow> (True, AList.delete name (map (\<lambda>(n, other). (n, stripForeignKeys name other)) db)))"

fun assignmentsRecord :: "(string \<times> string) list \<Rightarrow> Record \<Rightarrow> Record" where
  "assignmentsRecord [] r = r"
| "assignmentsRecord ((c, v) # as) r = assignmentsRecord as (setValue r c v)"

definition update :: "Database \<Rightarrow> string \<Rightarrow> (string \<times> string) list \<Rightarrow> string \<Rightarrow> bool \<times> Database" where
  "update db name assignments condition =
     (case getTable db name of
        None \<Rightarrow> (False, db)
      | Some t \<Rightarrow>
          (let (ok, t') = updateRecord t (assignmentsRecord assignments Map.empty) condition
           in (ok, AList.update name t' db)))"

definition remove :: "Database \<Rightarrow> string \<Rightarrow> string \<Rightarrow> bool \<times> Database" where
  "remove db name condition =
     (case getTable db name of
        None \<Rightarrow> (False, db)
      | Some t \<Rightarrow>
          (let (ok, t') = deleteRecord t condition
           in (ok, AList.update name t' db)))"

fun insertValues :: "string list \<Rightarrow> string list \<Rightarrow> Record \<Rightarrow> Record" where
  "insertValues (c # cs) (v # vs) r = insertValues cs vs (setValue r c (removeApostrophe v))"
| "insertValues cs vs r = r"

definition insert_row :: "Database \<Rightarrow> string \<Rightarrow> string list \<Rightarrow> string list \<Rightarrow> bool \<times> Database" where
  "insert_row db name cols vals =
     (case getTable db name of
        None \<Rightarrow> (False, db)
      | Some t \<Rightarrow>
          if length cols \<noteq> length vals then (False, db)
          else (let (ok, t') = insertRecord t (insertValues cols vals Map.empty)
                in (ok, AList.update name t' db)))"

section \<open>The XOR cipher\<close>

type_synonym byte = "8 word"

definition byte_of_char :: "char \<Rightarrow> byte" where
  "byte_of_char c = of_nat (of_char c)"

definition char_of_byte :: "byte \<Rightarrow> char" where
  "char_of_byte b = char_of (unat b)"

text \<open>
  \<^verbatim>\<open>encrypted[i] = data[i] ^ key[i % key.size()]\<close> for \<open>i < data.size()\<close>. With an empty
  key the first iteration divides by zero, which is undefined behaviour: \<open>None\<close>.
  With empty data the loop body never runs.
\<close>

fun xor_loop :: "byte list \<Rightarrow> byte list \<Rightarrow> nat \<Rightarrow> byte list \<Rightarrow> byte list" where
  "xor_loop [] key i acc = acc"
| "xor_loop (d # ds) key i acc = xor_loop ds key (Suc i) (acc @ [d XOR key ! (i mod length key)])"

definition encryptData :: "byte list \<Rightarrow> byte list \<Rightarrow> byte list option" where
  "encryptData data key =
     (if data \<noteq> [] \<and> key = [] then None else Some (xor_loop data key 0 []))"

definition decryptData :: "byte list \<Rightarrow> byte list \<Rightarrow> byte list option" where
  "decryptData data key =
     (if data \<noteq> [] \<and> key = [] then None else Some (xor_loop data key 0 []))"

section \<open>Database: persistence\<close>

text \<open>The loops \<^verbatim>\<open>oss << xs[i]; if (i != xs.size() - 1) oss << sep\<close>.\<close>

fun join :: "string list \<Rightarrow> char \<Rightarrow> string" where
  "join [] sep = []"
| "join [x] sep = x"
| "join (x # y # ys) sep = x @ sep # join (y # ys) sep"

text \<open>\<^verbatim>\<open>oss << records.size()\<close>: the decimal digits of an unsigned number.\<close>

definition digit_char :: "nat \<Rightarrow> char" where
  "digit_char d = char_of (48 + d)"

fun string_of_nat :: "nat \<Rightarrow> string" where
  "string_of_nat n =
     (if n < 10 then [digit_char n] else string_of_nat (n div 10) @ [digit_char (n mod 10)])"

definition writeConstraint :: "Constraint \<Rightarrow> string" where
  "writeConstraint c =
     (case c of
        PrimaryKeyConstraint cols \<Rightarrow> ''PK('' @ join cols CHR '','' @ '')''
      | UniqueConstraint cols \<Rightarrow> ''UQ('' @ join cols CHR '','' @ '')''
      | ForeignKeyConstraint localCols refTable refCols \<Rightarrow>
          ''FK('' @ join localCols CHR '','' @ '')->'' @ refTable @ ''('' @ join refCols CHR '','' @ '')'')"

text \<open>The loop over the constraints, with its flag \<^verbatim>\<open>firstConstraint\<close>.\<close>

fun writeConstraints :: "Constraint list \<Rightarrow> bool \<Rightarrow> string" where
  "writeConstraints [] firstConstraint = []"
| "writeConstraints (c # cs) firstConstraint =
     (if \<not> firstConstraint then '';'' else []) @ writeConstraint c @ writeConstraints cs False"

definition writeRecord :: "Column list \<Rightarrow> Record \<Rightarrow> string" where
  "writeRecord cols r =
     join (map (\<lambda>c. if hasColumn r (colName c) then the (getValue r (colName c)) else []) cols) CHR ''|''
     @ [CHR 0x0A]"

definition writeTable :: "string \<Rightarrow> Table \<Rightarrow> string" where
  "writeTable name t =
     ''TABLE:'' @ name @ [CHR 0x0A]
     @ ''COLUMNS:'' @ join (map colName (columns (schema t))) CHR '','' @ [CHR 0x0A]
     @ ''CONSTRAINTS:'' @ writeConstraints (constraints (schema t)) True @ [CHR 0x0A]
     @ ''RECORDS:'' @ string_of_nat (length (records t)) @ [CHR 0x0A]
     @ concat (map (writeRecord (columns (schema t))) (records t))
     @ ''END_TABLE'' @ [CHR 0x0A]"


definition serialize :: "Database \<Rightarrow> string list \<Rightarrow> string" where
  "serialize db order =
     concat (map (\<lambda>name. case getTable db name of None \<Rightarrow> [] | Some t \<Rightarrow> writeTable name t) order)"

text \<open>
  \<^verbatim>\<open>flushToFile\<close>: the bytes written to the file, for a file that can be opened for
  writing; \<open>None\<close> is the undefined behaviour of the cipher on an empty key.
\<close>

definition flushToFile :: "Database \<Rightarrow> string list \<Rightarrow> string \<Rightarrow> string option" where
  "flushToFile db order key =
     map_option (map char_of_byte)
       (encryptData (map byte_of_char (serialize db order)) (map byte_of_char key))"

datatype load_error =
    CannotOpenFile
  | EmptyKeyUndefined
  | ExpectedColumns
  | ExpectedConstraints
  | ExpectedRecords
  | ExpectedEndTable
  | StoiException

text \<open>
  \<^verbatim>\<open>std::stoi\<close> in base 10: leading white space, an optional sign, then digits; it
  throws \<^verbatim>\<open>invalid_argument\<close> without a digit and \<^verbatim>\<open>out_of_range\<close> outside the 32-bit
  \<^verbatim>\<open>int\<close>; both are \<open>None\<close>.
\<close>

definition isspace :: "char \<Rightarrow> bool" where
  "isspace c = (c \<in> set [CHR '' '', CHR 0x09, CHR 0x0A, CHR 0x0B, CHR 0x0C, CHR 0x0D])"

definition isdigit :: "char \<Rightarrow> bool" where
  "isdigit c = (48 \<le> (of_char c :: nat) \<and> (of_char c :: nat) \<le> 57)"

fun digits_value :: "string \<Rightarrow> nat \<Rightarrow> nat" where
  "digits_value [] acc = acc"
| "digits_value (c # cs) acc = digits_value cs (10 * acc + (of_char c - 48))"

definition stoi :: "string \<Rightarrow> int option" where
  "stoi s =
     (let s1 = dropWhile isspace s;
          neg = (s1 \<noteq> [] \<and> hd s1 = CHR ''-'');
          s2 = (if s1 \<noteq> [] \<and> (hd s1 = CHR ''-'' \<or> hd s1 = CHR ''+'') then tl s1 else s1);
          ds = takeWhile isdigit s2;
          v = (if neg then - int (digits_value ds 0) else int (digits_value ds 0))
      in if ds = [] then None
         else if v < - (2 ^ 31) \<or> 2 ^ 31 - 1 < v then None
         else Some v)"

definition parseConstraint :: "string \<Rightarrow> Constraint option" where
  "parseConstraint token =
     (if starts_with token ''PK(''
      then Some (PrimaryKeyConstraint (split (substr token 3 (size_sub (length token) 4)) CHR '',''))
      else if starts_with token ''UQ(''
      then Some (UniqueConstraint (split (substr token 3 (size_sub (length token) 4)) CHR '',''))
      else if starts_with token ''FK(''
      then (case find_str token '')->'' of
              None \<Rightarrow> None
            | Some posArrow \<Rightarrow>
                (let localCols = split (substr token 3 (size_sub posArrow 3)) CHR '','';
                     rest = substr_from token (posArrow + 3)
                 in case find_char rest CHR ''('' of
                      None \<Rightarrow> None
                    | Some posParen \<Rightarrow>
                        (let refTable = trim (substr rest 0 posParen);
                             refColsStr = substr rest (posParen + 1)
                                            (size_sub (size_sub (length rest) posParen) 2)
                         in Some (ForeignKeyConstraint localCols refTable (split refColsStr CHR '','')))))
      else None)"

text \<open>The loop over the constraint tokens: a token that is not understood adds nothing.\<close>

fun parseConstraints :: "string list \<Rightarrow> Constraint list" where
  "parseConstraints [] = []"
| "parseConstraints (token # tokens) =
     (case parseConstraint token of
        None \<Rightarrow> parseConstraints tokens
      | Some c \<Rightarrow> c # parseConstraints tokens)"

text \<open>\<^verbatim>\<open>record.setValue(columnNames[j], j < values.size() ? values[j] : "")\<close> for every \<open>j\<close>.\<close>

fun buildRecord :: "string list \<Rightarrow> string list \<Rightarrow> Record \<Rightarrow> Record" where
  "buildRecord [] values r = r"
| "buildRecord (c # cs) [] r = buildRecord cs [] (setValue r c [])"
| "buildRecord (c # cs) (v # vs) r = buildRecord cs vs (setValue r c v)"

text \<open>
  The stream of the decrypted text is the list of lines that successive
  \<^verbatim>\<open>std::getline\<close> calls deliver; a call on the empty list is a failed read.
  The record loop: a failed read breaks out of the loop.
\<close>

fun readRecords :: "nat \<Rightarrow> string list \<Rightarrow> Table \<Rightarrow> string list \<Rightarrow> Table \<times> string list" where
  "readRecords 0 columnNames t ls = (t, ls)"
| "readRecords (Suc n) columnNames t [] = (t, [])"
| "readRecords (Suc n) columnNames t (l # ls) =
     (let line = trim l;
          values = split line CHR ''|'';
          r = buildRecord columnNames values Map.empty
      in readRecords n columnNames (snd (insertRecord t r)) ls)"

datatype frame_result = FrameBreak | FrameError load_error | FrameLoaded Table "string list"

definition readTable :: "string \<Rightarrow> string list \<Rightarrow> frame_result" where
  "readTable name ls =
     (case ls of
        [] \<Rightarrow> FrameBreak
      | l1 # ls1 \<Rightarrow>
        if \<not> starts_with (trim l1) ''COLUMNS:'' then FrameError ExpectedColumns
        else
          (let columnNames = split (trim (substr_from (trim l1) 8)) CHR '','';
               cols = map (\<lambda>colName. \<lparr>colName = colName, colType = STRING, allowNull = True,
                                       defaultValue = []\<rparr>) columnNames
           in case ls1 of
                [] \<Rightarrow> FrameBreak
              | l2 # ls2 \<Rightarrow>
                if \<not> starts_with (trim l2) ''CONSTRAINTS:'' then FrameError ExpectedConstraints
                else
                  (let constraintsStr = trim (substr_from (trim l2) 12);
                       cs = (if constraintsStr \<noteq> []
                             then parseConstraints (split constraintsStr CHR '';'') else [])
                   in case ls2 of
                        [] \<Rightarrow> FrameBreak
                      | l3 # ls3 \<Rightarrow>
                        if \<not> starts_with (trim l3) ''RECORDS:'' then FrameError ExpectedRecords
                        else
                          (case stoi (trim (substr_from (trim l3) 8)) of
                             None \<Rightarrow> FrameError StoiException
                           | Some recordCount \<Rightarrow>
                               (let t0 = \<lparr>tableName = name,
                                          schema = \<lparr>columns = cols, constraints = cs\<rparr>,
                                          records = []\<rparr>;
                                    (t, ls4) = readRecords (nat recordCount) columnNames t0 ls3
                                in case ls4 of
                                     [] \<Rightarrow> FrameBreak
                                   | l5 # ls5 \<Rightarrow>
                                     if trim l5 \<noteq> ''END_TABLE'' then FrameError ExpectedEndTable
                                     else FrameLoaded t ls5)))))"

function loadLoop :: "string list \<Rightarrow> Database \<Rightarrow> load_error option \<times> Database" where
  "loadLoop [] db = (None, db)"
| "loadLoop (l # ls) db =
     (let line = trim l in
      if line = [] then loadLoop ls db
      else if starts_with line ''TABLE:''
      then (let name = trim (substr_from line 6)
            in case readTable name ls of
                 FrameBreak \<Rightarrow> (None, db)
               | FrameError e \<Rightarrow> (Some e, db)
               | FrameLoaded t ls' \<Rightarrow> loadLoop ls' (addTable db name t))
      else loadLoop ls db)"
  by pat_completeness auto
termination
  apply (relation "measure (\<lambda>(ls, db). length ls)")
     apply simp_all
  subgoal premises prems for l ls line name t ls'
  proof -
    have rr: "length ys \<le> length xs" if "readRecords n cs t0 xs = (t1, ys)" for n cs t0 xs t1 ys
      using that
      by (induction n cs t0 xs rule: readRecords.induct) (auto simp: Let_def intro: le_SucI)
    have "length ls' \<le> length ls"
      using prems(5)
      by (auto simp: readTable_def Let_def
          split: list.splits if_splits option.splits prod.splits dest!: rr)
    then show ?thesis by simp
  qed
  done

definition loadFromFile :: "string option \<Rightarrow> string \<Rightarrow> Database \<Rightarrow> load_error option \<times> Database" where
  "loadFromFile file key db =
     (case file of
        None \<Rightarrow> (Some CannotOpenFile, db)
      | Some encryptedData \<Rightarrow>
          (case decryptData (map byte_of_char encryptedData) (map byte_of_char key) of
             None \<Rightarrow> (Some EmptyKeyUndefined, db)
           | Some decryptedData \<Rightarrow>
               loadLoop (getline_all (map char_of_byte decryptedData) CHR 0x0A) []))"

section \<open>Drivers, specification predicates and examples\<close>

text \<open>A sequence of \<^verbatim>\<open>insertRecord\<close> calls on one table; a rejected insert leaves the table as it was.\<close>

fun insertAll :: "Table \<Rightarrow> Record list \<Rightarrow> Table" where
  "insertAll t [] = t"
| "insertAll t (r # rs) = insertAll (snd (insertRecord t r)) rs"

text \<open>
  The failure causes of an insert as the specification words them: for a primary-key
  or unique constraint a declared column is missing from the new record, a primary-key
  value is the empty string, or an existing record that has all the declared columns
  agrees with the new record on all of them.
\<close>

definition spec_violation :: "Record list \<Rightarrow> Record \<Rightarrow> Constraint \<Rightarrow> bool" where
  "spec_violation rs r c =
     (case c of
        PrimaryKeyConstraint K \<Rightarrow>
          (\<exists>col\<in>set K. r col = None \<or> r col = Some [])
          \<or> (\<exists>e\<in>set rs. \<forall>col\<in>set K. e col \<noteq> None \<and> e col = r col)
      | UniqueConstraint K \<Rightarrow>
          (\<exists>col\<in>set K. r col = None)
          \<or> (\<exists>e\<in>set rs. \<forall>col\<in>set K. e col \<noteq> None \<and> e col = r col)
      | ForeignKeyConstraint K refTable refColumns \<Rightarrow> False)"

text \<open>The invariant behind primary-key uniqueness: every record has a key tuple and the tuples are distinct.\<close>

definition pk_inv :: "string list \<Rightarrow> Record list \<Rightarrow> bool" where
  "pk_inv K rs \<longleftrightarrow> distinct (map (\<lambda>r. existingValues r K) rs) \<and> (\<forall>r\<in>set rs. existingValues r K \<noteq> None)"

definition users_schema :: Schema where
  "users_schema =
     \<lparr>columns = [\<lparr>colName = ''id'', colType = INTEGER, allowNull = False, defaultValue = []\<rparr>,
                 \<lparr>colName = ''name'', colType = STRING, allowNull = True, defaultValue = []\<rparr>,
                 \<lparr>colName = ''age'', colType = INTEGER, allowNull = True, defaultValue = []\<rparr>],
      constraints = [PrimaryKeyConstraint [''id'']]\<rparr>"

definition alice :: Record where
  "alice = [''id'' \<mapsto> ''1'', ''name'' \<mapsto> ''Alice'', ''age'' \<mapsto> ''30'']"

definition bob :: Record where
  "bob = [''id'' \<mapsto> ''1'', ''name'' \<mapsto> ''Bob'', ''age'' \<mapsto> ''40'']"

definition carol :: Record where
  "carol = [''id'' \<mapsto> ''2'', ''name'' \<mapsto> ''Carol'', ''age'' \<mapsto> ''25'']"

definition users_empty :: Table where
  "users_empty = \<lparr>tableName = ''users'', schema = users_schema, records = []\<rparr>"

definition users_table :: Table where
  "users_table = \<lparr>tableName = ''users'', schema = users_schema, records = [alice]\<rparr>"

definition age31 :: Record where
  "age31 = [''age'' \<mapsto> ''31'']"

definition cond_id99 :: string where
  "cond_id99 = ''id = 99''"

definition cond_id1 :: string where
  "cond_id1 = ''id = 1''"

definition cond_quoted :: string where
  "cond_quoted = ''name = '' @ [CHR 0x27] @ ''Alice'' @ [CHR 0x27]"

definition users_two :: Table where
  "users_two = \<lparr>tableName = ''users'', schema = users_schema, records = [alice, carol]\<rparr>"

definition orders_schema :: Schema where
  "orders_schema =
     \<lparr>columns = [\<lparr>colName = ''oid'', colType = INTEGER, allowNull = False, defaultValue = []\<rparr>,
                 \<lparr>colName = ''uid'', colType = INTEGER, allowNull = True, defaultValue = []\<rparr>],
      constraints = [PrimaryKeyConstraint [''oid''],
                     ForeignKeyConstraint [''uid''] ''users'' [''id''],
                     ForeignKeyConstraint [''oid''] ''items'' [''id''],
                     UniqueConstraint [''uid'']]\<rparr>"

definition order1 :: Record where
  "order1 = [''oid'' \<mapsto> ''7'', ''uid'' \<mapsto> ''1'']"

definition orders_table :: Table where
  "orders_table = \<lparr>tableName = ''orders'', schema = orders_schema, records = [order1]\<rparr>"

definition shop_db :: Database where
  "shop_db = [(''users'', users_table), (''orders'', orders_table)]"

definition age31_assignments :: "(string \<times> string) list" where
  "age31_assignments = [(''age'', ''31'')]"

definition users_db :: Database where
  "users_db = [(''users'', users_two)]"

definition key_k :: string where
  "key_k = ''k''"

definition key_wrong :: string where
  "key_wrong = ''wrong''"

section \<open>Well-formed catalogs and the view a round trip preserves\<close>

text \<open>A string that \<^verbatim>\<open>trim\<close> leaves as it is: no white space at either end.\<close>

definition trimmed :: "string \<Rightarrow> bool" where
  "trimmed s \<longleftrightarrow> s = [] \<or> (hd s \<notin> set whitespace \<and> last s \<notin> set whitespace)"

text \<open>
  A string that survives the frame format: free of the given delimiter characters and of
  line feeds, with no white space at either end.
\<close>

definition plain :: "string \<Rightarrow> string \<Rightarrow> bool" where
  "plain forbidden s \<longleftrightarrow> (\<forall>c\<in>set s. c \<notin> set forbidden \<and> c \<noteq> CHR 0x0A) \<and> trimmed s"













definition users_order :: "string list" where
  "users_order = [''users'']"


definition users_file :: string where
  "users_file = the (flushToFile users_db users_order key_k)"

definition users_wrong_text :: "byte list" where
  "users_wrong_text = the (decryptData (map byte_of_char users_file) (map byte_of_char key_wrong))"

section \<open>Cipher properties\<close>

lemma xor_loop_eq:
  "xor_loop ds key i acc = acc @ map (\<lambda>j. ds ! j XOR key ! ((i + j) mod length key)) [0..<length ds]"
proof (induction ds arbitrary: i acc)
  case Nil
  then show ?case by simp
next
  case (Cons d ds)
  have "map (\<lambda>j. (d # ds) ! j XOR key ! ((i + j) mod length key)) [0..<length (d # ds)]
      = (d XOR key ! (i mod length key)) # map (\<lambda>j. ds ! j XOR key ! ((Suc i + j) mod length key)) [0..<length ds]"
    by (simp add: upt_conv_Cons map_Suc_upt [symmetric] del: upt_Suc)
  with Cons.IH [of "Suc i"] show ?case by simp
qed

lemma length_xor_loop: "length (xor_loop ds key 0 []) = length ds"
  by (simp add: xor_loop_eq)

lemma nth_xor_loop:
  "i < length ds \<Longrightarrow> xor_loop ds key 0 [] ! i = ds ! i XOR key ! (i mod length key)"
  by (simp add: xor_loop_eq)

lemma xor_loop_involution: "xor_loop (xor_loop ds key 0 []) key 0 [] = ds"
  by (rule nth_equalityI) (simp_all add: length_xor_loop nth_xor_loop xor.assoc)

text \<open>
  C3: for every byte sequence and every non-empty key, decrypting the encryption gives
  the input back; output byte \<open>i\<close> is input byte \<open>i\<close> XOR key byte \<open>i mod len(key)\<close>;
  and encryption and decryption are the same function.
\<close>

theorem C3_cipher_involution:
  assumes "k \<noteq> []"
  shows "\<exists>c. encryptData b k = Some c \<and> decryptData c k = Some b
           \<and> length c = length b
           \<and> (\<forall>i < length b. c ! i = b ! i XOR k ! (i mod length k))
           \<and> decryptData b k = encryptData b k"
  using assms
  by (simp add: encryptData_def decryptData_def xor_loop_involution length_xor_loop nth_xor_loop)

theorem C3_cipher_involution_witness:
  "[107 :: byte] \<noteq> [] \<and> encryptData [72, 105, 10] [107] = Some [35, 2, 97]
     \<and> decryptData [35, 2, 97] [107] = Some [72, 105, 10]"
proof -
  have k: "[107 :: byte] \<noteq> []" by simp
  from C3_cipher_involution [OF k, of "[72, 105, 10]"]
  obtain c where c: "encryptData [72, 105, 10] [107 :: byte] = Some c"
    and d: "decryptData c [107 :: byte] = Some [72, 105, 10]" by blast
  have e: "encryptData [72, 105, 10] [107 :: byte] = Some [35, 2, 97]"
    by (simp add: encryptData_def)
  with c d show ?thesis by simp
qed

section \<open>Insertion\<close>

lemma remove_if_filter: "remove_if p xs = filter (\<lambda>x. \<not> p x) xs"
  by (induction xs) auto

lemma existingValues_eq:
  "existingValues r K =
     (if \<exists>col\<in>set K. r col = None then None else Some (map (\<lambda>c. the (r c)) K))"
  by (induction K) (auto simp: hasColumn_def getValue_def split: option.splits)

lemma gatherPrimaryKey_Inr:
  "\<forall>col\<in>set K. r col \<noteq> None \<and> r col \<noteq> Some [] \<Longrightarrow>
     gatherPrimaryKey r K = Inr (map (\<lambda>c. the (r c)) K)"
  by (induction K) (auto simp: hasColumn_def getValue_def)

lemma gatherPrimaryKey_Inr_dest:
  "gatherPrimaryKey r K = Inr vs \<Longrightarrow> \<forall>col\<in>set K. r col \<noteq> None \<and> r col \<noteq> Some []"
  by (induction K arbitrary: vs)
    (auto simp: hasColumn_def getValue_def split: option.splits sum.splits if_splits)

lemma gatherPrimaryKey_Inr_iff:
  "gatherPrimaryKey r K = Inr vs \<longleftrightarrow>
     (\<forall>col\<in>set K. r col \<noteq> None \<and> r col \<noteq> Some []) \<and> vs = map (\<lambda>c. the (r c)) K"
  using gatherPrimaryKey_Inr [of K r] gatherPrimaryKey_Inr_dest [of r K vs]
  by (cases "\<forall>col\<in>set K. r col \<noteq> None \<and> r col \<noteq> Some []") auto

lemma gatherUnique_Inr:
  "\<forall>col\<in>set K. r col \<noteq> None \<Longrightarrow> gatherUnique r K = Inr (map (\<lambda>c. the (r c)) K)"
  by (induction K) (auto simp: hasColumn_def getValue_def)

lemma gatherUnique_Inr_dest:
  "gatherUnique r K = Inr vs \<Longrightarrow> \<forall>col\<in>set K. r col \<noteq> None"
  by (induction K arbitrary: vs)
    (auto simp: hasColumn_def getValue_def split: option.splits sum.splits if_splits)

lemma gatherUnique_Inr_iff:
  "gatherUnique r K = Inr vs \<longleftrightarrow>
     (\<forall>col\<in>set K. r col \<noteq> None) \<and> vs = map (\<lambda>c. the (r c)) K"
  using gatherUnique_Inr [of K r] gatherUnique_Inr_dest [of r K vs]
  by (cases "\<forall>col\<in>set K. r col \<noteq> None") auto

lemma duplicateScan_iff:
  "duplicateScan rs K vs \<longleftrightarrow> (\<exists>e\<in>set rs. existingValues e K = Some vs)"
  by (induction rs) (auto split: option.splits)

lemma same_key_iff:
  assumes "\<forall>col\<in>set K. r col \<noteq> None"
  shows "existingValues e K = Some (map (\<lambda>c. the (r c)) K)
           \<longleftrightarrow> (\<forall>col\<in>set K. e col \<noteq> None \<and> e col = r col)"
  using assms by (auto simp: existingValues_eq) (metis option.sel)

lemma violation_PK:
  "(case gatherPrimaryKey r K of Inl e \<Rightarrow> True | Inr vs \<Rightarrow> duplicateScan rs K vs)
     \<longleftrightarrow> spec_violation rs r (PrimaryKeyConstraint K)"
proof (cases "gatherPrimaryKey r K")
  case (Inl e)
  then have "\<not> (\<forall>col\<in>set K. r col \<noteq> None \<and> r col \<noteq> Some [])"
    using gatherPrimaryKey_Inr_iff [of r K "map (\<lambda>c. the (r c)) K"] by auto
  with Inl show ?thesis by (auto simp: spec_violation_def)
next
  case (Inr vs)
  then have ok: "\<forall>col\<in>set K. r col \<noteq> None \<and> r col \<noteq> Some []"
    and vs: "vs = map (\<lambda>c. the (r c)) K"
    by (simp_all add: gatherPrimaryKey_Inr_iff)
  from ok have "\<forall>col\<in>set K. r col \<noteq> None" by blast
  from same_key_iff [OF this] have dup:
    "duplicateScan rs K vs \<longleftrightarrow> (\<exists>e\<in>set rs. \<forall>col\<in>set K. e col \<noteq> None \<and> e col = r col)"
    by (simp add: duplicateScan_iff vs)
  have nov: "(\<exists>col\<in>set K. r col = None \<or> r col = Some []) = False" using ok by blast
  show ?thesis using Inr by (simp add: spec_violation_def nov dup)
qed

lemma violation_UQ:
  "(case gatherUnique r K of Inl e \<Rightarrow> True | Inr vs \<Rightarrow> duplicateScan rs K vs)
     \<longleftrightarrow> spec_violation rs r (UniqueConstraint K)"
proof (cases "gatherUnique r K")
  case (Inl e)
  then have "\<not> (\<forall>col\<in>set K. r col \<noteq> None)"
    using gatherUnique_Inr_iff [of r K "map (\<lambda>c. the (r c)) K"] by auto
  with Inl show ?thesis by (auto simp: spec_violation_def)
next
  case (Inr vs)
  then have ok: "\<forall>col\<in>set K. r col \<noteq> None"
    and vs: "vs = map (\<lambda>c. the (r c)) K"
    by (simp_all add: gatherUnique_Inr_iff)
  from same_key_iff [OF ok] have dup:
    "duplicateScan rs K vs \<longleftrightarrow> (\<exists>e\<in>set rs. \<forall>col\<in>set K. e col \<noteq> None \<and> e col = r col)"
    by (simp add: duplicateScan_iff vs)
  have nov: "(\<exists>col\<in>set K. r col = None) = False" using ok by blast
  show ?thesis using Inr by (simp add: spec_violation_def nov dup)
qed

lemma checkConstraints_None_iff:
  "checkConstraints cs rs r = None \<longleftrightarrow> (\<forall>c\<in>set cs. \<not> spec_violation rs r c)"
proof (induction cs rs r rule: checkConstraints.induct)
  case (1 rs r)
  then show ?case by simp
next
  case (2 keyColumns cs rs r)
  then show ?case
    using violation_PK [where r=r and K=keyColumns and rs=rs]
    by (auto split: sum.splits)
next
  case (3 keyColumns cs rs r)
  then show ?case
    using violation_UQ [where r=r and K=keyColumns and rs=rs]
    by (auto split: sum.splits)
next
  case (4 keyColumns refTable refColumns cs rs r)
  then show ?case by (simp add: spec_violation_def)
qed

lemma examples_simps:
  "schema users_empty = users_schema" "records users_empty = []"
  "schema users_table = users_schema" "records users_table = [alice]"
  "constraints users_schema = [PrimaryKeyConstraint [''id'']]"
  "alice ''id'' = Some ''1''" "bob ''id'' = Some ''1''" "carol ''id'' = Some ''2''"
  by (simp_all add: users_empty_def users_table_def users_schema_def alice_def bob_def carol_def)

text \<open>
  C2: a failing \<^verbatim>\<open>insertRecord\<close> leaves the table (hence its record sequence) as it was,
  a successful one appends the record at the end; and it fails exactly when some
  constraint of the schema is violated in the sense of the specification.
\<close>

theorem C2_insert_atomic:
  "(fst (insertRecord t r) \<longrightarrow> snd (insertRecord t r) = t\<lparr>records := records t @ [r]\<rparr>)
   \<and> (\<not> fst (insertRecord t r) \<longrightarrow> snd (insertRecord t r) = t)
   \<and> (\<not> fst (insertRecord t r) \<longleftrightarrow> (\<exists>c\<in>set (constraints (schema t)). spec_violation (records t) r c))"
  using checkConstraints_None_iff [of "constraints (schema t)" "records t" r]
  by (auto simp: insertRecord_def split: option.splits)

theorem C2_insert_atomic_witness:
  "fst (insertRecord users_empty alice)
   \<and> records (snd (insertRecord users_empty alice)) = [alice]
   \<and> \<not> fst (insertRecord users_table bob)
   \<and> snd (insertRecord users_table bob) = users_table
   \<and> spec_violation (records users_table) bob (PrimaryKeyConstraint [''id''])"
proof -
  have a: "fst (insertRecord users_empty alice)"
    by (simp add: insertRecord_def examples_simps hasColumn_def getValue_def)
  have b: "\<not> fst (insertRecord users_table bob)"
    by (simp add: insertRecord_def examples_simps hasColumn_def getValue_def)
  have v: "spec_violation (records users_table) bob (PrimaryKeyConstraint [''id''])"
    by (simp add: spec_violation_def examples_simps)
  from C2_insert_atomic [of users_empty alice] a
  have "records (snd (insertRecord users_empty alice)) = [alice]"
    by (simp add: examples_simps)
  moreover from C2_insert_atomic [of users_table bob] b
  have "snd (insertRecord users_table bob) = users_table" by blast
  ultimately show ?thesis using a b v by blast
qed

lemma insertRecord_schema: "schema (snd (insertRecord t r)) = schema t"
  by (simp add: insertRecord_def split: option.splits)

lemma insertRecord_pk_inv:
  assumes "PrimaryKeyConstraint K \<in> set (constraints (schema t))" and "pk_inv K (records t)"
  shows "pk_inv K (records (snd (insertRecord t r)))"
proof (cases "checkConstraints (constraints (schema t)) (records t) r")
  case None
  then have nv: "\<not> spec_violation (records t) r (PrimaryKeyConstraint K)"
    using assms(1) by (auto simp: checkConstraints_None_iff)
  then have def: "\<forall>col\<in>set K. r col \<noteq> None"
    by (auto simp: spec_violation_def)
  have "\<not> (\<exists>e\<in>set (records t). existingValues e K = existingValues r K)"
    using nv def same_key_iff [OF def] by (auto simp: spec_violation_def existingValues_eq)
  moreover have "existingValues r K \<noteq> None"
    using def by (simp add: existingValues_eq)
  ultimately show ?thesis
    using assms(2) None by (auto simp: insertRecord_def pk_inv_def) 
next
  case (Some e)
  then show ?thesis using assms(2) by (simp add: insertRecord_def)
qed

lemma insertAll_pk_inv:
  "PrimaryKeyConstraint K \<in> set (constraints (schema t)) \<Longrightarrow> pk_inv K (records t)
     \<Longrightarrow> pk_inv K (records (insertAll t rs))"
proof (induction rs arbitrary: t)
  case Nil
  then show ?case by simp
next
  case (Cons r rs)
  show ?case
    using Cons.IH [of "snd (insertRecord t r)"] Cons.prems insertRecord_pk_inv [of K t r]
    by (simp add: insertRecord_schema)
qed

lemma pk_inv_distinct_keys:
  assumes "pk_inv K rs" and "i < j" and "j < length rs"
  shows "\<not> (\<forall>col\<in>set K. (rs ! i) col = (rs ! j) col)"
proof
  assume eq: "\<forall>col\<in>set K. (rs ! i) col = (rs ! j) col"
  have "existingValues (rs ! i) K = existingValues (rs ! j) K"
    using eq by (auto simp: existingValues_eq)
  moreover have "distinct (map (\<lambda>r. existingValues r K) rs)"
    using assms(1) by (simp add: pk_inv_def)
  moreover have "i < length (map (\<lambda>r. existingValues r K) rs)"
    and "j < length (map (\<lambda>r. existingValues r K) rs)" and "i \<noteq> j"
    using assms(2,3) by simp_all
  ultimately show False
    using nth_eq_iff_index_eq [of "map (\<lambda>r. existingValues r K) rs" i j] assms(2,3) by simp
qed

text \<open>
  C1: in a table whose schema has a primary key on the columns \<open>K\<close>, starting from no
  records, after any sequence of \<^verbatim>\<open>insertRecord\<close> calls no two records agree on all
  columns of \<open>K\<close>.
\<close>

theorem C1_primary_key_unique:
  assumes "PrimaryKeyConstraint K \<in> set (constraints (schema t))" and "records t = []"
  shows "\<forall>j < length (records (insertAll t rs)). \<forall>i < j.
            \<not> (\<forall>col\<in>set K. (records (insertAll t rs) ! i) col = (records (insertAll t rs) ! j) col)"
proof -
  have "pk_inv K (records t)" using assms(2) by (simp add: pk_inv_def)
  from insertAll_pk_inv [OF assms(1) this] have "pk_inv K (records (insertAll t rs))" .
  then show ?thesis using pk_inv_distinct_keys by blast
qed

theorem C1_primary_key_unique_witness:
  "PrimaryKeyConstraint [''id''] \<in> set (constraints (schema users_empty))
   \<and> records users_empty = []
   \<and> records (insertAll users_empty [alice, bob, carol]) = [alice, carol]
   \<and> (records (insertAll users_empty [alice, bob, carol]) ! 0) ''id''
       \<noteq> (records (insertAll users_empty [alice, bob, carol]) ! 1) ''id''"
proof -
  have pk: "PrimaryKeyConstraint [''id''] \<in> set (constraints (schema users_empty))"
    by (simp add: examples_simps)
  have emp: "records users_empty = []" by (simp add: examples_simps)
  have run: "records (insertAll users_empty [alice, bob, carol]) = [alice, carol]"
    by (simp add: insertRecord_def examples_simps hasColumn_def getValue_def)
  have "1 < length (records (insertAll users_empty [alice, bob, carol]))"
    by (simp only: run) simp
  from C1_primary_key_unique [OF pk emp, of "[alice, bob, carol]", rule_format, OF this, of 0]
  have "\<not> (\<forall>col\<in>set [''id''].
              (records (insertAll users_empty [alice, bob, carol]) ! 0) col
               = (records (insertAll users_empty [alice, bob, carol]) ! 1) col)"
    by simp
  then have "(records (insertAll users_empty [alice, bob, carol]) ! 0) ''id''
       \<noteq> (records (insertAll users_empty [alice, bob, carol]) ! 1) ''id''"
    by simp
  with pk emp run show ?thesis by blast
qed

section \<open>Update, delete and drop\<close>

lemmas eval_defs = trim_def whitespace_def find_last_not_of_def substr_def substr_from_def
  getValue_def hasColumn_def size_sub_def

lemma updateLoop_no_match:
  "\<forall>r\<in>set rs. r col \<noteq> Some val \<Longrightarrow> updateLoop rs new col val u = (u, rs)"
  by (induction rs) (auto simp: getValue_def split: option.splits)

lemma update_same: "map_of db k = Some v \<Longrightarrow> AList.update k v db = db"
  by (induction db) (auto split: if_splits)

lemma Table_records_same: "t\<lparr>records := records t\<rparr> = t"
  by simp

text \<open>
  C7 (as amended): an update whose condition is a single equality clause with a bare,
  unquoted literal, and which matches no record in the sense of the condition grammar
  (the stored value equals the literal with surrounding quotes stripped), returns
  \<open>False\<close>, the value it also returns for a malformed condition, and leaves the table
  unchanged; \<^verbatim>\<open>Database::update\<close> passes that \<open>False\<close> on and the catalog is unchanged.
  The code reports no count. Conditions with a quoted literal are left out.
\<close>

theorem C7_update_no_match:
  assumes "trim condition \<noteq> []" and "trim condition \<noteq> ''all''"
    and "find_char (trim condition) CHR ''='' = Some pos"
    and "\<not> (trim (substr_from (trim condition) (pos + 1)) \<noteq> []
            \<and> hd (trim (substr_from (trim condition) (pos + 1))) = CHR 0x27
            \<and> last (trim (substr_from (trim condition) (pos + 1))) = CHR 0x27)"
    and "\<forall>r\<in>set (records t). r (trim (substr (trim condition) 0 pos))
            \<noteq> Some (removeApostrophe (trim (substr_from (trim condition) (pos + 1))))"
  shows "updateRecord t newRecord condition = (False, t)
     \<and> (getTable db name = Some t \<longrightarrow> update db name assignments condition = (False, db))"
proof -
  have bare: "removeApostrophe (trim (substr_from (trim condition) (pos + 1)))
                = trim (substr_from (trim condition) (pos + 1))"
    using assms(4) by (simp only: removeApostrophe_def if_False)
  have nomatch: "\<forall>r\<in>set (records t). r (trim (substr (trim condition) 0 pos))
            \<noteq> Some (trim (substr_from (trim condition) (pos + 1)))"
    using assms(5) by (simp only: bare)
  have u: "updateRecord t new condition = (False, t)" for new
    using assms(1,2,3) nomatch by (simp add: updateRecord_def Let_def updateLoop_no_match)
  show ?thesis
    by (simp add: u update_def getTable_def update_same)
qed

theorem C7_update_no_match_witness:
  "updateRecord users_table age31 cond_id99 = (False, users_table)
   \<and> update shop_db ''users'' age31_assignments cond_id99 = (False, shop_db)"
proof -
  have 1: "trim cond_id99 \<noteq> []" and 2: "trim cond_id99 \<noteq> ''all''"
    and 3: "find_char (trim cond_id99) CHR ''='' = Some 3"
    by (simp_all add: cond_id99_def eval_defs)
  have 4: "\<not> (trim (substr_from (trim cond_id99) (3 + 1)) \<noteq> []
            \<and> hd (trim (substr_from (trim cond_id99) (3 + 1))) = CHR 0x27
            \<and> last (trim (substr_from (trim cond_id99) (3 + 1))) = CHR 0x27)"
    by (simp add: cond_id99_def eval_defs)
  have 5: "\<forall>r\<in>set (records users_table). r (trim (substr (trim cond_id99) 0 3))
            \<noteq> Some (removeApostrophe (trim (substr_from (trim cond_id99) (3 + 1))))"
    by (simp add: cond_id99_def eval_defs examples_simps removeApostrophe_def)
  have 6: "getTable shop_db ''users'' = Some users_table"
    by (simp add: getTable_def shop_db_def)
  from C7_update_no_match [OF 1 2 3 4 5, of age31 shop_db "''users''" age31_assignments] 6
  show ?thesis by simp
qed

text \<open>
  The claim as stated fails: on the one-row users table the condition \<open>id = 99\<close> is
  well formed and matches nothing, and both \<^verbatim>\<open>Table::updateRecord\<close> and
  \<^verbatim>\<open>Database::update\<close> return \<open>False\<close>, not a success.
\<close>

theorem C7_counterexample:
  "find_char (trim cond_id99) CHR ''='' = Some 3
   \<and> list_all (\<lambda>r. r ''id'' \<noteq> Some ''99'') (records users_table)
   \<and> fst (updateRecord users_table age31 cond_id99) = False
   \<and> fst (update shop_db ''users'' age31_assignments cond_id99) = False"
proof -
  have u: "updateRecord users_table new cond_id99 = (False, users_table)" for new
    by (simp add: cond_id99_def eval_defs examples_simps updateRecord_def)
  have "fst (update shop_db ''users'' age31_assignments cond_id99) = False"
    by (simp add: update_def getTable_def shop_db_def u)
  moreover have "find_char (trim cond_id99) CHR ''='' = Some 3"
    by (simp add: cond_id99_def eval_defs)
  moreover have "list_all (\<lambda>r. r ''id'' \<noteq> Some ''99'') (records users_table)"
    by (simp add: examples_simps)
  ultimately show ?thesis by (simp add: u)
qed

lemma deleteRecord_quote:
  "(if v \<noteq> [] \<and> hd v = CHR 0x27 \<and> last v = CHR 0x27
    then substr v 1 (size_sub (length v) 2) else v) = removeApostrophe v"
  by (simp add: removeApostrophe_def)

lemma deleteRecord_eq:
  assumes "trim condition \<noteq> ''all''" and "find_char (trim condition) CHR ''='' = Some pos"
  shows "deleteRecord t condition =
     (let rs = filter (\<lambda>r. r (trim (substr (trim condition) 0 pos))
                  \<noteq> Some (removeApostrophe (trim (substr_from (trim condition) (pos + 1))))) (records t)
      in (length rs < length (records t), t\<lparr>records := rs\<rparr>))"
proof -
  have "(\<lambda>x. \<not> deleteMatches c v x) = (\<lambda>r. r c \<noteq> Some v)" for c v
    by (auto simp: deleteMatches_def getValue_def fun_eq_iff split: option.splits)
  then show ?thesis
    using assms
    by (simp add: deleteRecord_def Let_def remove_if_filter deleteRecord_quote)
qed

text \<open>
  C10: a delete with an equality condition leaves exactly the records that do not
  match, in their original order and unmodified; name and schema stay as they were.
\<close>

theorem C10_delete_frame:
  assumes "trim condition \<noteq> ''all''" and "find_char (trim condition) CHR ''='' = Some pos"
  shows "snd (deleteRecord t condition) =
           t\<lparr>records := filter (\<lambda>r. r (trim (substr (trim condition) 0 pos))
                  \<noteq> Some (removeApostrophe (trim (substr_from (trim condition) (pos + 1)))))
                (records t)\<rparr>
     \<and> subseq (records (snd (deleteRecord t condition))) (records t)"
  by (simp add: deleteRecord_eq [OF assms] Let_def)

theorem C10_delete_frame_witness:
  "snd (deleteRecord users_two cond_id1) = users_two\<lparr>records := [carol]\<rparr>"
proof -
  have 1: "trim cond_id1 \<noteq> ''all''" and 2: "find_char (trim cond_id1) CHR ''='' = Some 3"
    by (simp_all add: cond_id1_def eval_defs)
  from C10_delete_frame [OF 1 2, of users_two]
  show ?thesis
    by (simp add: cond_id1_def eval_defs users_two_def examples_simps removeApostrophe_def)
qed

text \<open>
  C8 (as amended): a delete whose trimmed condition is \<open>all\<close> empties the record
  sequence and returns \<open>True\<close>; with the empty condition it returns \<open>False\<close> and
  changes nothing; with an equality condition matching no record it returns \<open>False\<close>
  and changes nothing.
\<close>

theorem C8_delete:
  "(trim condition = ''all'' \<longrightarrow> deleteRecord t condition = (True, t\<lparr>records := []\<rparr>))
   \<and> (trim condition = [] \<longrightarrow> deleteRecord t condition = (False, t))
   \<and> (trim condition \<noteq> ''all'' \<and> find_char (trim condition) CHR ''='' = Some pos
        \<and> (\<forall>r\<in>set (records t). r (trim (substr (trim condition) 0 pos))
              \<noteq> Some (removeApostrophe (trim (substr_from (trim condition) (pos + 1)))))
      \<longrightarrow> deleteRecord t condition = (False, t))"
proof (intro conjI impI)
  assume "trim condition = ''all''"
  then show "deleteRecord t condition = (True, t\<lparr>records := []\<rparr>)"
    by (simp add: deleteRecord_def)
next
  assume "trim condition = []"
  then show "deleteRecord t condition = (False, t)"
    by (simp add: deleteRecord_def)
next
  assume a: "trim condition \<noteq> ''all'' \<and> find_char (trim condition) CHR ''='' = Some pos
        \<and> (\<forall>r\<in>set (records t). r (trim (substr (trim condition) 0 pos))
              \<noteq> Some (removeApostrophe (trim (substr_from (trim condition) (pos + 1)))))"
  then have "filter (\<lambda>r. r (trim (substr (trim condition) 0 pos))
                  \<noteq> Some (removeApostrophe (trim (substr_from (trim condition) (pos + 1))))) (records t)
             = records t"
    by simp
  with a show "deleteRecord t condition = (False, t)"
    by (simp add: deleteRecord_eq Let_def)
qed

theorem C8_delete_witness:
  "deleteRecord users_two ''all'' = (True, users_two\<lparr>records := []\<rparr>)
   \<and> deleteRecord users_two [] = (False, users_two)
   \<and> deleteRecord users_two cond_id99 = (False, users_two)"
proof -
  have 1: "trim ''all'' = ''all''" and 2: "trim [] = []"
    and 3: "trim cond_id99 \<noteq> ''all'' \<and> find_char (trim cond_id99) CHR ''='' = Some 3
        \<and> (\<forall>r\<in>set (records users_two). r (trim (substr (trim cond_id99) 0 3))
              \<noteq> Some (removeApostrophe (trim (substr_from (trim cond_id99) (3 + 1)))))"
    by (simp_all add: cond_id99_def eval_defs users_two_def examples_simps removeApostrophe_def)
  from C8_delete [of "''all''" users_two] 1
  have a: "deleteRecord users_two ''all'' = (True, users_two\<lparr>records := []\<rparr>)" by blast
  from C8_delete [of "[]" users_two] 2
  have b: "deleteRecord users_two [] = (False, users_two)" by blast
  from C8_delete [of cond_id99 users_two 3] 3
  have c: "deleteRecord users_two cond_id99 = (False, users_two)" by blast
  from a b c show ?thesis by blast
qed

text \<open>
  The claim as stated fails: on a two-row table the empty condition removes nothing
  and reports failure, and a delete matching nothing reports failure as well.
\<close>

theorem C8_counterexample:
  "records users_two \<noteq> []
   \<and> deleteRecord users_two [] = (False, users_two)
   \<and> fst (deleteRecord users_two cond_id99) = False"
  by (simp add: deleteRecord_def deleteMatches_def Let_def cond_id99_def eval_defs
      users_two_def examples_simps)

text \<open>
  C9: the claim asks \<^verbatim>\<open>updateRecord\<close> to strip the quotes of a quoted literal as
  \<^verbatim>\<open>deleteRecord\<close> does. On the users table holding Alice, the condition
  \<open>name = 'Alice'\<close> selects nothing in \<^verbatim>\<open>updateRecord\<close> (it compares with the quotes
  still on), while \<^verbatim>\<open>deleteRecord\<close> with the same condition removes the record.
\<close>

theorem C9_update_keeps_quotes:
  "alice ''name'' = Some ''Alice''
   \<and> updateRecord users_table age31 cond_quoted = (False, users_table)
   \<and> deleteRecord users_table cond_quoted = (True, users_table\<lparr>records := []\<rparr>)"
  by (simp add: updateRecord_def deleteRecord_def deleteMatches_def cond_quoted_def eval_defs
      examples_simps alice_def)

lemma map_of_strip:
  "map_of (map (\<lambda>(n, other). (n, f other)) db) k = map_option f (map_of db k)"
  by (induction db) auto

text \<open>
  C6: dropping an existing table \<open>A\<close> succeeds, removes \<open>A\<close> from the catalog, and
  leaves every other table as it was except that its constraint list loses exactly
  the foreign keys whose referenced table is \<open>A\<close>; records, columns, primary keys,
  unique constraints and other foreign keys stay in place and in order.
\<close>

theorem C6_drop_table:
  assumes "getTable db A = Some a"
  shows "fst (dropTable db A)
     \<and> getTable (snd (dropTable db A)) A = None
     \<and> (\<forall>n. n \<noteq> A \<longrightarrow>
          (case getTable db n of
             None \<Rightarrow> getTable (snd (dropTable db A)) n = None
           | Some t \<Rightarrow>
               getTable (snd (dropTable db A)) n =
                 Some (t\<lparr>schema := (schema t)\<lparr>constraints :=
                    filter (\<lambda>c. \<forall>cols refCols. c \<noteq> ForeignKeyConstraint cols A refCols)
                      (constraints (schema t))\<rparr>\<rparr>)))"
proof -
  have f: "(\<lambda>c. \<not> referencesTable A c) = (\<lambda>c. \<forall>cols refCols. c \<noteq> ForeignKeyConstraint cols A refCols)"
    by (auto simp: referencesTable_def fun_eq_iff split: Constraint.splits)
  show ?thesis
    using assms
    by (auto simp: dropTable_def getTable_def delete_conv map_of_strip stripForeignKeys_def
        remove_if_filter f split: option.splits)
qed

theorem C6_drop_table_witness:
  "fst (dropTable shop_db ''users'')
   \<and> getTable (snd (dropTable shop_db ''users'')) ''users'' = None
   \<and> getTable (snd (dropTable shop_db ''users'')) ''orders''
       = Some (orders_table\<lparr>schema := orders_schema\<lparr>constraints :=
            [PrimaryKeyConstraint [''oid''], ForeignKeyConstraint [''oid''] ''items'' [''id''],
             UniqueConstraint [''uid'']]\<rparr>\<rparr>)"
proof -
  have 1: "getTable shop_db ''users'' = Some users_table"
    by (simp add: getTable_def shop_db_def)
  have 2: "getTable shop_db ''orders'' = Some orders_table"
    by (simp add: getTable_def shop_db_def)
  from C6_drop_table [OF 1] have
    a: "fst (dropTable shop_db ''users'')"
    and b: "getTable (snd (dropTable shop_db ''users'')) ''users'' = None"
    and c: "\<forall>n. n \<noteq> ''users'' \<longrightarrow>
          (case getTable shop_db n of
             None \<Rightarrow> getTable (snd (dropTable shop_db ''users'')) n = None
           | Some t \<Rightarrow>
               getTable (snd (dropTable shop_db ''users'')) n =
                 Some (t\<lparr>schema := (schema t)\<lparr>constraints :=
                    filter (\<lambda>c. \<forall>cols refCols. c \<noteq> ForeignKeyConstraint cols ''users'' refCols)
                      (constraints (schema t))\<rparr>\<rparr>))"
    by blast+
  from c [rule_format, of "''orders''"] 2
  have "getTable (snd (dropTable shop_db ''users'')) ''orders''
       = Some (orders_table\<lparr>schema := orders_schema\<lparr>constraints :=
            [PrimaryKeyConstraint [''oid''], ForeignKeyConstraint [''oid''] ''items'' [''id''],
             UniqueConstraint [''uid'']]\<rparr>\<rparr>)"
    by (simp add: orders_table_def orders_schema_def)
  with a b show ?thesis by blast
qed

section \<open>The round trip through a file\<close>

declare getline_all.simps [simp del]











declare string_of_nat.simps [simp del]














lemma plain_trimmed: "plain f s \<Longrightarrow> trimmed s"
  by (simp add: plain_def)





















declare loadLoop.simps [simp del]





















section \<open>Loading with another key\<close>

lemma loadLoop_no_table:
  "\<forall>l\<in>set ls. \<not> starts_with (trim l) ''TABLE:'' \<Longrightarrow> loadLoop ls db = (None, db)"
proof (induction ls)
  case Nil
  then show ?case by (simp add: loadLoop.simps)
next
  case (Cons l ls)
  then have "\<not> starts_with (trim l) ''TABLE:''" and "loadLoop ls db = (None, db)"
    by simp_all
  then show ?case by (subst loadLoop.simps) (simp add: Let_def)
qed

text \<open>
  C5 (as amended): the load has no check of the key. Whenever the bytes decrypted with
  the key given to the load contain no line that begins with \<open>TABLE:\<close> after trimming,
  the load reports success and leaves the catalog empty; a frame error can only arise
  after such a line.
\<close>

theorem C5_wrong_key_silent:
  assumes "decryptData (map byte_of_char enc) (map byte_of_char key') = Some dec"
    and "\<forall>l\<in>set (getline_all (map char_of_byte dec) CHR 0x0A). \<not> starts_with (trim l) ''TABLE:''"
  shows "loadFromFile (Some enc) key' db = (None, [])"
  using assms by (simp add: loadFromFile_def loadLoop_no_table)

lemma users_file_eq: "flushToFile users_db users_order key_k = Some users_file"
  by code_simp

lemma users_wrong_text_eq:
  "decryptData (map byte_of_char users_file) (map byte_of_char key_wrong) = Some users_wrong_text"
  by code_simp

lemma users_wrong_text_lines:
  "\<forall>l\<in>set (getline_all (map char_of_byte users_wrong_text) CHR 0x0A). \<not> starts_with (trim l) ''TABLE:''"
  by code_simp

theorem C5_wrong_key_silent_witness:
  "flushToFile users_db users_order key_k = Some users_file \<and> key_wrong \<noteq> key_k
   \<and> loadFromFile (Some users_file) key_wrong shop_db = (None, [])"
proof -
  have "key_wrong \<noteq> key_k" by (simp add: key_wrong_def key_k_def)
  with users_file_eq
    C5_wrong_key_silent [OF users_wrong_text_eq users_wrong_text_lines, of shop_db]
  show ?thesis by blast
qed

text \<open>
  The claim as stated fails: the users table with two records, flushed with the key
  \<open>k\<close> and loaded with the key \<open>wrong\<close>, is reported as loaded with no error.
\<close>

theorem C5_counterexample:
  "length (records users_two) = 2 \<and> key_wrong \<noteq> [] \<and> key_wrong \<noteq> key_k
   \<and> flushToFile users_db users_order key_k = Some users_file
   \<and> fst (loadFromFile (Some users_file) key_wrong []) = None"
proof -
  have "length (records users_two) = 2" by (simp add: users_two_def)
  moreover have "key_wrong \<noteq> []" "key_wrong \<noteq> key_k"
    by (simp_all add: key_wrong_def key_k_def)
  moreover have "fst (loadFromFile (Some users_file) key_wrong []) = None"
    by code_simp
  ultimately show ?thesis using users_file_eq by blast
qed

end
